theory Spec2Isabelle
  imports Main
begin

section \<open>Go values, errors and formatting\<close>

text \<open>
  The validators take an \<^verbatim>\<open>interface{}\<close>: a value whose dynamic type is only known at
  run time. \<open>VList\<close> is a \<^verbatim>\<open>[]interface{}\<close>, \<open>VNil\<close> the nil interface. A Go string is a
  byte sequence, so \<open>length\<close> on a \<open>string\<close> is Go's \<^verbatim>\<open>len\<close>.
\<close>

datatype val = VNil | VBool bool | VInt int | VString string | VList "val list"

text \<open>
  Go's \<^verbatim>\<open>error\<close> values. \<open>ErrorString\<close> is what \<^verbatim>\<open>fmt.Errorf\<close> builds, \<open>StatusError\<close> is the API
  machinery's \<^verbatim>\<open>*errors.StatusError\<close> with its \<^verbatim>\<open>ErrStatus.Code\<close> and message. \<open>DeleteTimeout\<close> is
  the failure of the polling primitive at its deadline and \<open>InvalidIdentifier\<close> the failure
  to parse an identifier, under the names the specification gives them.
\<close>

datatype error =
    ErrorString string
  | StatusError int string
  | DeleteTimeout
  | InvalidIdentifier string

fun Error :: "error \<Rightarrow> string" where
  "Error (ErrorString s) = s"
| "Error (StatusError code msg) = msg"
| "Error DeleteTimeout = ''timeout while waiting for deletion''"
| "Error (InvalidIdentifier s) = ''invalid identifier: '' @ s"

text \<open>
  A call either panics (a failed unchecked type assertion, a nil dereference) or returns.
\<close>

datatype 'a result = Panic | Returned 'a

text \<open>The verbs of \<^verbatim>\<open>fmt\<close> that the code uses: \<^verbatim>\<open>%d\<close>, \<^verbatim>\<open>%q\<close> and \<^verbatim>\<open>%v\<close> of a string slice.\<close>

fun uitoa :: "nat \<Rightarrow> string" where
  "uitoa n = (if n < 10 then [''0123456789'' ! n]
              else uitoa (n div 10) @ [''0123456789'' ! (n mod 10)])"

declare uitoa.simps [simp del]

definition itoa :: "int \<Rightarrow> string" where
  "itoa i = (if i < 0 then CHR ''-'' # uitoa (nat (- i)) else uitoa (nat i))"

text \<open>
  \<^verbatim>\<open>%q\<close> writes a double-quoted Go string literal. Quote and backslash are escaped; the
  other escapes of \<^verbatim>\<open>strconv.Quote\<close> (control and non-printable bytes) are not modelled, such
  bytes are kept as they are.
\<close>

fun quote_char :: "char \<Rightarrow> string" where
  "quote_char c = (if c = CHR 0x22 \<or> c = CHR 0x5C then [CHR 0x5C, c] else [c])"

definition quote :: "string \<Rightarrow> string" where
  "quote s = CHR 0x22 # concat (map quote_char s) @ [CHR 0x22]"

fun join :: "string \<Rightarrow> string list \<Rightarrow> string" where
  "join sep [] = []"
| "join sep [x] = x"
| "join sep (x # y # ys) = x @ sep @ join sep (y # ys)"

definition fmt_strings :: "string list \<Rightarrow> string" where
  "fmt_strings xs = ''['' @ join '' '' xs @ '']''"

section \<open>The validators (helper/validation/validation.go)\<close>

text \<open>
  A \<^verbatim>\<open>SchemaValidateFunc\<close> takes the value and its key and returns warnings and errors.
\<close>

type_synonym validate_result = "(string list \<times> error list) result"

definition IntBetween :: "int \<Rightarrow> int \<Rightarrow> val \<Rightarrow> string \<Rightarrow> validate_result" where
  "IntBetween minv maxv i k =
     (case i of
        VInt v \<Rightarrow>
          if v < minv \<or> v > maxv
          then Returned ([], [ErrorString (''expected '' @ k @ '' to be in the range ('' @ itoa minv
                 @ '' - '' @ itoa maxv @ ''), got '' @ itoa v)])
          else Returned ([], [])
      | _ \<Rightarrow> Returned ([], [ErrorString (''expected type of '' @ k @ '' to be int'')]))"

definition IntAtLeast :: "int \<Rightarrow> val \<Rightarrow> string \<Rightarrow> validate_result" where
  "IntAtLeast minv i k =
     (case i of
        VInt v \<Rightarrow>
          if v < minv
          then Returned ([], [ErrorString (''expected '' @ k @ '' to be at least ('' @ itoa minv
                 @ ''), got '' @ itoa v)])
          else Returned ([], [])
      | _ \<Rightarrow> Returned ([], [ErrorString (''expected type of '' @ k @ '' to be int'')]))"

definition IntAtMost :: "int \<Rightarrow> val \<Rightarrow> string \<Rightarrow> validate_result" where
  "IntAtMost maxv i k =
     (case i of
        VInt v \<Rightarrow>
          if v > maxv
          then Returned ([], [ErrorString (''expected '' @ k @ '' to be at most ('' @ itoa maxv
                 @ ''), got '' @ itoa v)])
          else Returned ([], [])
      | _ \<Rightarrow> Returned ([], [ErrorString (''expected type of '' @ k @ '' to be int'')]))"

text \<open>
  \<^verbatim>\<open>strings.ToLower\<close> belongs to Go's library; \<open>StringInSlice\<close> takes it as the parameter
  \<open>ToLower\<close>.
\<close>

definition StringInSlice ::
  "(string \<Rightarrow> string) \<Rightarrow> string list \<Rightarrow> bool \<Rightarrow> val \<Rightarrow> string \<Rightarrow> validate_result" where
  "StringInSlice ToLower valid ignoreCase i k =
     (case i of
        VString v \<Rightarrow>
          if list_ex (\<lambda>str. v = str \<or> (ignoreCase \<and> ToLower v = ToLower str)) valid
          then Returned ([], [])
          else Returned ([], [ErrorString (''expected '' @ k @ '' to be one of '' @ fmt_strings valid
                 @ '', got '' @ v)])
      | _ \<Rightarrow> Returned ([], [ErrorString (''expected type of '' @ k @ '' to be string'')]))"

definition StringLenBetween :: "int \<Rightarrow> int \<Rightarrow> val \<Rightarrow> string \<Rightarrow> validate_result" where
  "StringLenBetween minv maxv i k =
     (case i of
        VString v \<Rightarrow>
          if int (length v) < minv \<or> int (length v) > maxv
          then Returned ([], [ErrorString (''expected length of '' @ k @ '' to be in the range (''
                 @ itoa minv @ '' - '' @ itoa maxv @ ''), got '' @ v)])
          else Returned ([], [])
      | _ \<Rightarrow> Returned ([], [ErrorString (''expected type of '' @ k @ '' to be string'')]))"

text \<open>
  \<^verbatim>\<open>structure.NormalizeJsonString\<close> is not among the sources; \<open>ValidateJsonString\<close> takes it as
  a parameter, which may panic or return its error.
\<close>

definition ValidateJsonString ::
  "(val \<Rightarrow> (string \<times> error option) result) \<Rightarrow> val \<Rightarrow> string \<Rightarrow> validate_result" where
  "ValidateJsonString NormalizeJsonString v k =
     (case NormalizeJsonString v of
        Panic \<Rightarrow> Panic
      | Returned (_, Some err) \<Rightarrow>
          Returned ([], [ErrorString (quote k @ '' contains an invalid JSON: '' @ Error err)])
      | Returned (_, None) \<Rightarrow> Returned ([], []))"

text \<open>
  \<open>ValidateListUniqueStrings\<close>: the unchecked assertion \<^verbatim>\<open>v.([]interface{})\<close> panics unless
  \<open>v\<close> is a \<open>VList\<close>, and \<^verbatim>\<open>v1.(string)\<close>, \<^verbatim>\<open>v2.(string)\<close> panic on an element that is not a
  string. Both element assertions are evaluated before \<^verbatim>\<open>n1 != n2\<close>, for every pair.
\<close>

fun assert_string :: "val \<Rightarrow> string option" where
  "assert_string (VString s) = Some s"
| "assert_string _ = None"

definition duplicate_error :: "string \<Rightarrow> string \<Rightarrow> error" where
  "duplicate_error k s = ErrorString (quote k @ '': duplicate entry - '' @ s)"

fun unique_inner ::
  "string \<Rightarrow> nat \<Rightarrow> val \<Rightarrow> (nat \<times> val) list \<Rightarrow> error list \<Rightarrow> error list result" where
  "unique_inner k n1 v1 [] errors = Returned errors"
| "unique_inner k n1 v1 ((n2, v2) # rest) errors =
     (case assert_string v1 of
        None \<Rightarrow> Panic
      | Some s1 \<Rightarrow>
          (case assert_string v2 of
             None \<Rightarrow> Panic
           | Some s2 \<Rightarrow>
               unique_inner k n1 v1 rest
                 (if s1 = s2 \<and> n1 \<noteq> n2 then errors @ [duplicate_error k s1] else errors)))"

fun unique_outer ::
  "string \<Rightarrow> (nat \<times> val) list \<Rightarrow> (nat \<times> val) list \<Rightarrow> error list \<Rightarrow> error list result" where
  "unique_outer k l [] errors = Returned errors"
| "unique_outer k l ((n1, v1) # rest) errors =
     (case unique_inner k n1 v1 l errors of
        Panic \<Rightarrow> Panic
      | Returned errors' \<Rightarrow> unique_outer k l rest errors')"

definition ValidateListUniqueStrings :: "val \<Rightarrow> string \<Rightarrow> validate_result" where
  "ValidateListUniqueStrings v k =
     (case v of
        VList l \<Rightarrow>
          (case unique_outer k (enumerate 0 l) (enumerate 0 l) [] of
             Panic \<Rightarrow> Panic
           | Returned errors \<Rightarrow> Returned ([], errors))
      | _ \<Rightarrow> Panic)"

text \<open>
  \<open>ValidateRegexp\<close>: \<^verbatim>\<open>v.(string)\<close> is unchecked. \<^verbatim>\<open>regexp.Compile\<close> belongs to Go's library
  and is the parameter \<open>Compile\<close>, which returns the syntax error if there is one.
\<close>

definition ValidateRegexp :: "(string \<Rightarrow> error option) \<Rightarrow> val \<Rightarrow> string \<Rightarrow> validate_result" where
  "ValidateRegexp Compile v k =
     (case assert_string v of
        None \<Rightarrow> Panic
      | Some s \<Rightarrow>
          (case Compile s of
             Some err \<Rightarrow> Returned ([], [ErrorString (quote k @ '': '' @ Error err)])
           | None \<Rightarrow> Returned ([], [])))"

section \<open>CIDR notation (Go's package net, for IPv4)\<close>

text \<open>
  \<open>CIDRNetwork\<close> calls \<^verbatim>\<open>net.ParseCIDR\<close>, \<^verbatim>\<open>(*IPNet).String\<close> and \<^verbatim>\<open>IPMask.Size\<close> of Go's
  library. They are modelled here for the dotted-decimal IPv4 form
  \<^verbatim>\<open>a.b.c.d/n\<close>: an address is its four bytes, a mask likewise. An address that is not
  IPv4 makes this \<open>ParseCIDR\<close> fail, where Go would go on to try IPv6: IPv6 literals are
  outside the model.
\<close>

record IPNet =
  IP :: "nat list"
  Mask :: "nat list"

definition is_digit :: "char \<Rightarrow> bool" where
  "is_digit c = (48 \<le> (of_char c :: nat) \<and> (of_char c :: nat) \<le> 57)"

definition big :: nat where
  "big = 0xFFFFFF"

text \<open>\<^verbatim>\<open>dtoi\<close>: the decimal number at the start of \<open>s\<close>, the count of its digits, and success.\<close>

fun dtoi_loop :: "string \<Rightarrow> nat \<Rightarrow> nat \<Rightarrow> nat \<times> nat \<times> bool" where
  "dtoi_loop [] n i = (n, i, True)"
| "dtoi_loop (c # cs) n i =
     (if is_digit c
      then (let n' = n * 10 + (of_char c - 48)
            in if n' \<ge> big then (big, i, False) else dtoi_loop cs n' (Suc i))
      else (n, i, True))"

definition dtoi :: "string \<Rightarrow> nat \<times> nat \<times> bool" where
  "dtoi s =
     (case dtoi_loop s 0 0 of
        (n, i, ok) \<Rightarrow> if \<not> ok then (n, i, False) else if i = 0 then (0, 0, False) else (n, i, True))"

text \<open>\<^verbatim>\<open>parseIPv4\<close>: four decimal fields of at most 255, separated by dots; \<open>todo\<close> counts the
  fields still to read and \<open>p\<close> holds those already read.\<close>

fun parseIPv4_loop :: "nat \<Rightarrow> string \<Rightarrow> nat list \<Rightarrow> (nat list \<times> string) option" where
  "parseIPv4_loop 0 s p = Some (p, s)"
| "parseIPv4_loop (Suc todo) s p =
     (if s = [] then None
      else if p \<noteq> [] \<and> hd s \<noteq> CHR ''.'' then None
      else (let s1 = (if p \<noteq> [] then tl s else s)
            in case dtoi s1 of
                 (n, c, ok) \<Rightarrow>
                   if \<not> ok \<or> n > 0xFF then None
                   else parseIPv4_loop todo (drop c s1) (p @ [n])))"

definition parseIPv4 :: "string \<Rightarrow> nat list option" where
  "parseIPv4 s =
     (case parseIPv4_loop 4 s [] of
        Some (p, rest) \<Rightarrow> if rest = [] then Some p else None
      | None \<Rightarrow> None)"

text \<open>\<^verbatim>\<open>CIDRMask(ones, 8 * l)\<close>: \<open>l\<close> bytes whose first \<open>n\<close> bits are set.\<close>

fun CIDRMask :: "nat \<Rightarrow> nat \<Rightarrow> nat list" where
  "CIDRMask n 0 = []"
| "CIDRMask n (Suc l) =
     (if n \<ge> 8 then 0xFF # CIDRMask (n - 8) l
      else (0xFF - 0xFF div 2 ^ n) # CIDRMask 0 l)"

definition ip_Mask :: "nat list \<Rightarrow> nat list \<Rightarrow> nat list" where
  "ip_Mask ip m = map (\<lambda>(b, c). and b c) (zip ip m)"

text \<open>\<^verbatim>\<open>byteIndex\<close>: the index of the first occurrence of \<open>c\<close> (Go returns -1 for none).\<close>

fun byteIndex :: "string \<Rightarrow> char \<Rightarrow> nat option" where
  "byteIndex [] c = None"
| "byteIndex (x # xs) c = (if x = c then Some 0 else map_option Suc (byteIndex xs c))"

definition ParseError :: "string \<Rightarrow> error" where
  "ParseError text = ErrorString (''invalid CIDR address: '' @ text)"

definition ParseCIDR :: "string \<Rightarrow> error + IPNet" where
  "ParseCIDR s =
     (case byteIndex s (CHR ''/'') of
        None \<Rightarrow> Inl (ParseError s)
      | Some i \<Rightarrow>
          (let addr = take i s; msk = drop (Suc i) s
           in case parseIPv4 addr of
                None \<Rightarrow> Inl (ParseError s)
              | Some ip \<Rightarrow>
                  (case dtoi msk of
                     (n, j, ok) \<Rightarrow>
                       if \<not> ok \<or> j \<noteq> length msk \<or> n > 8 * 4 then Inl (ParseError s)
                       else (let m = CIDRMask n 4 in Inr \<lparr>IP = ip_Mask ip m, Mask = m\<rparr>))))"

text \<open>\<^verbatim>\<open>simpleMaskLength\<close>: the number of leading one bits when the mask is ones followed by
  zeros (Go returns -1 otherwise, here \<open>None\<close>).\<close>

definition ones_of_byte :: "nat \<Rightarrow> nat option" where
  "ones_of_byte v =
     map_of [(0, 0), (0x80, 1), (0xC0, 2), (0xE0, 3), (0xF0, 4), (0xF8, 5), (0xFC, 6), (0xFE, 7)] v"

fun simpleMaskLength :: "nat list \<Rightarrow> nat option" where
  "simpleMaskLength [] = Some 0"
| "simpleMaskLength (v # rest) =
     (if v = 0xFF then map_option (\<lambda>n. n + 8) (simpleMaskLength rest)
      else (case ones_of_byte v of
              None \<Rightarrow> None
            | Some n \<Rightarrow> if list_all (\<lambda>b. b = 0) rest then Some n else None))"

definition Size :: "nat list \<Rightarrow> nat \<times> nat" where
  "Size m = (case simpleMaskLength m of None \<Rightarrow> (0, 0) | Some ones \<Rightarrow> (ones, 8 * length m))"

definition hex_byte :: "nat \<Rightarrow> string" where
  "hex_byte b = [''0123456789abcdef'' ! (b div 16), ''0123456789abcdef'' ! (b mod 16)]"

definition String :: "IPNet \<Rightarrow> string" where
  "String n =
     (case simpleMaskLength (Mask n) of
        None \<Rightarrow> join ''.'' (map uitoa (IP n)) @ ''/'' @ concat (map hex_byte (Mask n))
      | Some l \<Rightarrow> join ''.'' (map uitoa (IP n)) @ ''/'' @ uitoa l)"

text \<open>
  \<open>CIDRNetwork\<close>. \<^verbatim>\<open>ParseCIDR\<close> returns a network whenever it returns no error, so the test
  \<^verbatim>\<open>ipnet == nil\<close> is never true and the model keeps the comparison with \<open>String ipnet\<close> only.
  After a non-canonical literal the code does not return: the check of the significant bits
  runs as well.
\<close>

definition CIDRNetwork :: "int \<Rightarrow> int \<Rightarrow> val \<Rightarrow> string \<Rightarrow> validate_result" where
  "CIDRNetwork minv maxv i k =
     (case i of
        VString v \<Rightarrow>
          (case ParseCIDR v of
             Inl err \<Rightarrow>
               Returned ([], [ErrorString (''expected '' @ k @ '' to contain a valid CIDR, got: '' @ v
                 @ '' with err: '' @ Error err)])
           | Inr ipnet \<Rightarrow>
               (let es1 = (if v \<noteq> String ipnet
                           then [ErrorString (''expected '' @ k
                                  @ '' to contain a valid network CIDR, expected '' @ String ipnet
                                  @ '', got '' @ v)]
                           else []);
                    sigbits = int (fst (Size (Mask ipnet)));
                    es2 = (if sigbits < minv \<or> sigbits > maxv
                           then [ErrorString (''expected '' @ quote k
                                  @ '' to contain a network CIDR with between '' @ itoa minv @ '' and ''
                                  @ itoa maxv @ '' significant bits, got: '' @ itoa sigbits)]
                           else [])
                in Returned ([], es1 @ es2)))
      | _ \<Rightarrow> Returned ([], [ErrorString (''expected type of '' @ k @ '' to be string'')]))"

section \<open>The job resource (kubernetes/resource_kubernetes_job.go)\<close>

subsection \<open>API objects, the client and the resource data\<close>

text \<open>
  The fields of the API types that the resource functions read or write. A Go map may be
  nil: \<open>None\<close> is the nil map, on which a lookup finds nothing and \<^verbatim>\<open>delete\<close> does nothing.
  \<open>Selector\<close> is a pointer, \<open>None\<close> when nil.
\<close>

type_synonym labels = "(string \<rightharpoonup> string) option"

record LabelSelector =
  MatchLabels :: labels

record ObjectMeta =
  Name :: string
  Namespace :: string
  Labels :: labels
  Annotations :: labels

record JobSpec =
  Parallelism :: "int option"
  Completions :: "int option"
  ActiveDeadlineSeconds :: "int option"
  ManualSelector :: "bool option"
  Selector :: "LabelSelector option"

record Job =
  ObjectMeta :: ObjectMeta
  Spec :: JobSpec

text \<open>
  The remote service behind \<^verbatim>\<open>conn.BatchV1().Jobs(namespace)\<close>. An operation may call
  \<open>Get\<close> several times; the first argument of \<open>Get\<close> counts the earlier calls of the
  operation, so that a client is any sequence of get outcomes. The calls an operation
  issues are logged in order.
\<close>

datatype PatchType = JSONPatchType

record Clientset =
  Get :: "nat \<Rightarrow> string \<Rightarrow> string \<Rightarrow> error + Job"
  Delete :: "string \<Rightarrow> string \<Rightarrow> error option"
  Patch :: "string \<Rightarrow> string \<Rightarrow> PatchType \<Rightarrow> string \<Rightarrow> error + Job"

datatype call =
    GetCall string string
  | DeleteCall string string
  | PatchCall string string PatchType string

text \<open>
  \<^verbatim>\<open>schema.ResourceData\<close>: the identifier, the two queries the code makes (\<^verbatim>\<open>d.GetOk\<close>, of
  which only the flag is used, and \<^verbatim>\<open>d.HasChange\<close>) and the state that \<^verbatim>\<open>d.Set\<close> writes, with
  values of a type \<open>'c\<close> of configuration trees. The framework raises the flag of
  \<^verbatim>\<open>GetOk\<close> for a key that is set to a value other than the zero value of its type, so for
  \<^verbatim>\<open>spec.0.manual_selector\<close> when the configuration sets it to true.
\<close>

record 'c ResourceData =
  Id' :: string
  GetOk :: "string \<Rightarrow> bool"
  HasChange :: "string \<Rightarrow> bool"
  state :: "string \<rightharpoonup> 'c"

text \<open>
  The functions of the provider and of the framework that the resource functions call and
  that are not among the sources. They are parameters of the model: every theorem below
  holds whatever they compute. \<open>'p\<close> is the type of one patch operation.
\<close>

record ('c, 'p) pkg =
  idParts :: "string \<Rightarrow> error + string \<times> string"
  buildId :: "ObjectMeta \<Rightarrow> string"
  patchMetadata :: "string \<Rightarrow> string \<Rightarrow> 'c ResourceData \<Rightarrow> 'p list"
  patchJobSpec :: "string \<Rightarrow> string \<Rightarrow> 'c ResourceData \<Rightarrow> error + 'p list"
  MarshalJSON :: "'p list \<Rightarrow> error + string"
  flattenMetadata :: "ObjectMeta \<Rightarrow> 'c"
  flattenJobSpec :: "JobSpec \<Rightarrow> error + 'c"
  Set' :: "'c ResourceData \<Rightarrow> string \<Rightarrow> 'c \<Rightarrow> error option \<times> 'c ResourceData"

text \<open>The test \<^verbatim>\<open>statusErr, ok := err.(*errors.StatusError); ok && statusErr.ErrStatus.Code == 404\<close>.\<close>

fun status404 :: "error \<Rightarrow> bool" where
  "status404 (StatusError code msg) = (code = 404)"
| "status404 _ = False"

subsection \<open>Read\<close>

text \<open>\<^verbatim>\<open>if _, ok := labels[k]; ok { delete(labels, k) }\<close>\<close>

definition delete_label :: "labels \<Rightarrow> string \<Rightarrow> labels" where
  "delete_label labels k =
     (case labels of
        None \<Rightarrow> None
      | Some m \<Rightarrow> (case m k of None \<Rightarrow> Some m | Some _ \<Rightarrow> Some (m(k := None))))"

text \<open>
  Lines 120 to 137 of \<^verbatim>\<open>resourceKubernetesJobRead\<close>. The maps are shared with the job, so the
  deletions change the job itself. \<^verbatim>\<open>job.Spec.Selector.MatchLabels\<close> dereferences the
  selector without a nil check.
\<close>

definition removeServerLabels :: "'c ResourceData \<Rightarrow> Job \<Rightarrow> Job result" where
  "removeServerLabels d job =
     (if \<not> GetOk d ''spec.0.manual_selector''
      then (let labels = Labels (ObjectMeta job);
                labels = delete_label labels ''controller-uid'';
                labels = delete_label labels ''job-name'';
                job = job\<lparr>ObjectMeta := (ObjectMeta job)\<lparr>Labels := labels\<rparr>\<rparr>
            in case Selector (Spec job) of
                 None \<Rightarrow> Panic
               | Some sel \<Rightarrow>
                   Returned (job\<lparr>Spec := (Spec job)\<lparr>Selector :=
                     Some (sel\<lparr>MatchLabels := delete_label (MatchLabels sel) ''controller-uid''\<rparr>)\<rparr>\<rparr>))
      else Returned job)"

text \<open>Lines 139 to 154: the job is projected into the resource data.\<close>

definition setState ::
  "('c, 'p) pkg \<Rightarrow> 'c ResourceData \<Rightarrow> Job \<Rightarrow> error option \<times> 'c ResourceData" where
  "setState pkg d job =
     (case Set' pkg d ''metadata'' (flattenMetadata pkg (ObjectMeta job)) of
        (Some err, d1) \<Rightarrow> (Some err, d1)
      | (None, d1) \<Rightarrow>
          (case flattenJobSpec pkg (Spec job) of
             Inl err \<Rightarrow> (Some err, d1)
           | Inr jobSpec \<Rightarrow>
               (case Set' pkg d1 ''spec'' jobSpec of
                  (Some err, d2) \<Rightarrow> (Some err, d2)
                | (None, d2) \<Rightarrow> (None, d2))))"

definition resourceKubernetesJobRead ::
  "('c, 'p) pkg \<Rightarrow> Clientset \<Rightarrow> 'c ResourceData
     \<Rightarrow> (error option \<times> 'c ResourceData \<times> call list) result" where
  "resourceKubernetesJobRead pkg conn d =
     (case idParts pkg (Id' d) of
        Inl err \<Rightarrow> Returned (Some err, d, [])
      | Inr (namespace, name) \<Rightarrow>
          (case Get conn 0 namespace name of
             Inl err \<Rightarrow> Returned (Some err, d, [GetCall namespace name])
           | Inr job \<Rightarrow>
               (case removeServerLabels d job of
                  Panic \<Rightarrow> Panic
                | Returned job' \<Rightarrow>
                    (case setState pkg d job' of
                       (err, d') \<Rightarrow> Returned (err, d', [GetCall namespace name])))))"

subsection \<open>Update\<close>

definition resourceKubernetesJobUpdate ::
  "('c, 'p) pkg \<Rightarrow> Clientset \<Rightarrow> 'c ResourceData
     \<Rightarrow> (error option \<times> 'c ResourceData \<times> call list) result" where
  "resourceKubernetesJobUpdate pkg conn d =
     (case idParts pkg (Id' d) of
        Inl err \<Rightarrow> Returned (Some err, d, [])
      | Inr (namespace, name) \<Rightarrow>
          (let ops = patchMetadata pkg ''metadata.0.'' ''/metadata/'' d
           in case (if HasChange d ''spec''
                    then (case patchJobSpec pkg ''/spec'' ''spec.0.'' d of
                            Inl err \<Rightarrow> Inl err
                          | Inr specOps \<Rightarrow> Inr (ops @ specOps))
                    else Inr ops) of
                Inl err \<Rightarrow> Returned (Some err, d, [])
              | Inr ops \<Rightarrow>
                  (case MarshalJSON pkg ops of
                     Inl err \<Rightarrow>
                       Returned (Some (ErrorString (''Failed to marshal update operations: ''
                         @ Error err)), d, [])
                   | Inr data \<Rightarrow>
                       (case Patch conn namespace name JSONPatchType data of
                          Inl err \<Rightarrow>
                            Returned (Some err, d, [PatchCall namespace name JSONPatchType data])
                        | Inr out \<Rightarrow>
                            (case resourceKubernetesJobRead pkg conn
                                    (d\<lparr>Id' := buildId pkg (ObjectMeta out)\<rparr>) of
                               Panic \<Rightarrow> Panic
                             | Returned (err, d', calls) \<Rightarrow>
                                 Returned (err, d',
                                   PatchCall namespace name JSONPatchType data # calls))))))"

subsection \<open>Delete and the polling loop\<close>

text \<open>
  \<^verbatim>\<open>resource.RetryError\<close> with its two constructors, and the function that
  \<^verbatim>\<open>resourceKubernetesJobDelete\<close> passes to \<^verbatim>\<open>resource.Retry\<close> (lines 171 to 182);
  \<open>k\<close> is the number of earlier polls.
\<close>

datatype RetryError = RetryError (Err: error) (Retryable: bool)

definition NonRetryableError :: "error \<Rightarrow> RetryError" where
  "NonRetryableError err = RetryError err False"

definition RetryableError :: "error \<Rightarrow> RetryError" where
  "RetryableError err = RetryError err True"

definition deletePoll :: "Clientset \<Rightarrow> string \<Rightarrow> string \<Rightarrow> nat \<Rightarrow> RetryError option" where
  "deletePoll conn namespace name k =
     (case Get conn k namespace name of
        Inl err \<Rightarrow> if status404 err then None else Some (NonRetryableError err)
      | Inr _ \<Rightarrow> Some (RetryableError (ErrorString (''Job '' @ name @ '' still exists''))))"

text \<open>
  Modelled from the spec: \<^verbatim>\<open>resource.Retry\<close> (the framework's helper/resource package) is
  called by \<^verbatim>\<open>resourceKubernetesJobDelete\<close> but is not among the sources. The specification
  describes it as a bounded polling loop: the function is called repeatedly; no error ends
  the loop with success, an error that is not retryable ends it at once with that error, a
  retryable error is followed by a backoff and another attempt, all bounded by an overall
  timeout, at which the loop fails with \<open>DeleteTimeout\<close>. Time is counted in milliseconds
  on an injected clock: \<open>elapsed\<close> is the time since the loop began, an attempt starts only
  while \<open>elapsed\<close> is below \<open>timeout\<close>, and attempt \<open>k\<close> with the wait after it takes
  \<open>Suc (backoff k)\<close>, at least one millisecond. The result is the error and the number of
  attempts made.
\<close>

function Retry_loop ::
  "nat \<Rightarrow> (nat \<Rightarrow> nat) \<Rightarrow> (nat \<Rightarrow> RetryError option) \<Rightarrow> nat \<Rightarrow> nat \<Rightarrow> error option \<times> nat" where
  "Retry_loop timeout backoff f k elapsed =
     (if timeout \<le> elapsed then (Some DeleteTimeout, k)
      else (case f k of
              None \<Rightarrow> (None, Suc k)
            | Some rerr \<Rightarrow>
                if Retryable rerr
                then Retry_loop timeout backoff f (Suc k) (elapsed + Suc (backoff k))
                else (Some (Err rerr), Suc k)))"
  by pat_completeness auto
termination
  by (relation "measure (\<lambda>(timeout, backoff, f, k, elapsed). timeout - elapsed)") auto

declare Retry_loop.simps [simp del]

text \<open>
  Modelled from the spec: \<^verbatim>\<open>resource.Retry\<close>, missing from the sources, is the loop above
  from its first attempt, with the clock at zero.
\<close>

definition Retry :: "nat \<Rightarrow> (nat \<Rightarrow> nat) \<Rightarrow> (nat \<Rightarrow> RetryError option) \<Rightarrow> error option \<times> nat" where
  "Retry timeout backoff f = Retry_loop timeout backoff f 0 0"

text \<open>\<^verbatim>\<open>time.Minute\<close>, in milliseconds.\<close>

definition Minute :: nat where
  "Minute = 60000"

text \<open>
  \<open>resourceKubernetesJobDelete\<close>. The waits of the polling primitive are the parameter
  \<open>backoff\<close>. The log holds the delete call and one get for each poll;
  \<^verbatim>\<open>d.SetId("")\<close> is reached only when the loop has returned no error.
\<close>

definition resourceKubernetesJobDelete ::
  "('c, 'p) pkg \<Rightarrow> (nat \<Rightarrow> nat) \<Rightarrow> Clientset \<Rightarrow> 'c ResourceData
     \<Rightarrow> error option \<times> 'c ResourceData \<times> call list" where
  "resourceKubernetesJobDelete pkg backoff conn d =
     (case idParts pkg (Id' d) of
        Inl err \<Rightarrow> (Some err, d, [])
      | Inr (namespace, name) \<Rightarrow>
          (case Delete conn namespace name of
             Some err \<Rightarrow> (Some err, d, [DeleteCall namespace name])
           | None \<Rightarrow>
               (case Retry (1 * Minute) backoff (deletePoll conn namespace name) of
                  (Some err, polls) \<Rightarrow>
                    (Some err, d, DeleteCall namespace name # replicate polls (GetCall namespace name))
                | (None, polls) \<Rightarrow>
                    (None, d\<lparr>Id' := []\<rparr>,
                     DeleteCall namespace name # replicate polls (GetCall namespace name)))))"

subsection \<open>Exists\<close>

definition resourceKubernetesJobExists ::
  "('c, 'p) pkg \<Rightarrow> Clientset \<Rightarrow> 'c ResourceData \<Rightarrow> bool \<times> error option" where
  "resourceKubernetesJobExists pkg conn d =
     (case idParts pkg (Id' d) of
        Inl err \<Rightarrow> (False, Some err)
      | Inr (namespace, name) \<Rightarrow>
          (case Get conn 0 namespace name of
             Inl err \<Rightarrow> if status404 err then (False, None) else (True, Some err)
           | Inr _ \<Rightarrow> (True, None)))"

subsection \<open>The identifier\<close>

text \<open>
  \<^verbatim>\<open>buildId\<close> and \<^verbatim>\<open>idParts\<close> are called by the resource functions but are not among the
  sources. The specification asks for a single string that encodes the namespace and the
  name, supports the empty namespace, and parses back into the pair, parsing failing with
  \<open>InvalidIdentifier\<close> on a malformed string; it does not fix the encoding. The model
  joins the two parts with a separator byte \<open>sep\<close>, a parameter, and parses by splitting
  at every separator, as Go's \<^verbatim>\<open>strings.Split\<close> does for a one-byte separator.
\<close>

fun Split :: "char \<Rightarrow> string \<Rightarrow> string list" where
  "Split sep [] = [[]]"
| "Split sep (c # cs) =
     (if c = sep then [] # Split sep cs
      else (case Split sep cs of
              [] \<Rightarrow> [[c]]
            | p # ps \<Rightarrow> (c # p) # ps))"

text \<open>
  Modelled from the spec: \<^verbatim>\<open>buildId\<close>, missing from the sources. The identifier of an object
  is its namespace, the separator and its name.
\<close>

definition buildIdentifier :: "char \<Rightarrow> ObjectMeta \<Rightarrow> string" where
  "buildIdentifier sep meta = Namespace meta @ sep # Name meta"

text \<open>
  Modelled from the spec: \<^verbatim>\<open>idParts\<close>, missing from the sources. An identifier parses when
  it splits into exactly two parts, the namespace and the name; any other string is
  malformed.
\<close>

definition parseIdentifier :: "char \<Rightarrow> string \<Rightarrow> error + string \<times> string" where
  "parseIdentifier sep s =
     (case Split sep s of
        [namespace, name] \<Rightarrow> Inr (namespace, name)
      | _ \<Rightarrow> Inl (InvalidIdentifier s))"

section \<open>Notions used in the statements\<close>

text \<open>The ordered pairs of different positions of a list that hold equal elements.\<close>

definition duplicate_pairs :: "string list \<Rightarrow> (nat \<times> nat) list" where
  "duplicate_pairs xs =
     filter (\<lambda>(i, j). xs ! i = xs ! j \<and> i \<noteq> j) (List.product [0..<length xs] [0..<length xs])"

text \<open>The time on the loop's clock at which attempt \<open>k\<close> starts.\<close>

fun started :: "(nat \<Rightarrow> nat) \<Rightarrow> nat \<Rightarrow> nat" where
  "started backoff 0 = 0"
| "started backoff (Suc k) = started backoff k + Suc (backoff k)"

text \<open>
  The deletion is confirmed when the identifier parses, the delete call succeeds and the
  polling loop ends without an error.
\<close>

definition deletionConfirmed ::
  "('c, 'p) pkg \<Rightarrow> (nat \<Rightarrow> nat) \<Rightarrow> Clientset \<Rightarrow> 'c ResourceData \<Rightarrow> bool" where
  "deletionConfirmed pkg backoff conn d =
     (case idParts pkg (Id' d) of
        Inl err \<Rightarrow> False
      | Inr (namespace, name) \<Rightarrow>
          Delete conn namespace name = None
          \<and> fst (Retry (1 * Minute) backoff (deletePoll conn namespace name)) = None)"

text \<open>What is left of a label map once the keys in \<open>ks\<close> are removed.\<close>

definition without :: "labels \<Rightarrow> string set \<Rightarrow> labels" where
  "without labels ks = map_option (\<lambda>m. m |` (- ks)) labels"

section \<open>Example inputs\<close>

text \<open>
  A job as the server returns it, with the labels the job controller adds; a client that
  answers the gets of an operation from a given sequence of outcomes; a resource whose
  identifier is \<^verbatim>\<open>default/pi\<close>, whose \<^verbatim>\<open>spec\<close> has changed and which does not set
  \<^verbatim>\<open>manual_selector\<close>; and simple stand-ins for the functions that are parameters.
\<close>

definition exampleJob :: Job where
  "exampleJob =
     \<lparr>ObjectMeta =
        \<lparr>Name = ''pi'', Namespace = ''default'',
         Labels = Some [''controller-uid'' \<mapsto> ''1234'', ''job-name'' \<mapsto> ''pi'', ''app'' \<mapsto> ''pi''],
         Annotations = None\<rparr>,
      Spec =
        \<lparr>Parallelism = Some 1, Completions = Some 1, ActiveDeadlineSeconds = None,
         ManualSelector = None,
         Selector = Some \<lparr>MatchLabels = Some [''controller-uid'' \<mapsto> ''1234'']\<rparr>\<rparr>\<rparr>"

definition exampleClient :: "(nat \<Rightarrow> error + Job) \<Rightarrow> Clientset" where
  "exampleClient gets =
     \<lparr>Get = (\<lambda>k namespace name. gets k),
      Delete = (\<lambda>namespace name. None),
      Patch = (\<lambda>namespace name pt data. Inr exampleJob)\<rparr>"

definition exampleData :: "string list ResourceData" where
  "exampleData =
     \<lparr>Id' = ''default/pi'', GetOk = (\<lambda>key. False), HasChange = (\<lambda>key. key = ''spec''),
      state = Map.empty\<rparr>"

text \<open>Which of three label keys a label map holds.\<close>

definition present :: "labels \<Rightarrow> string list" where
  "present labels =
     (case labels of
        None \<Rightarrow> []
      | Some m \<Rightarrow> filter (\<lambda>key. m key \<noteq> None) [''app'', ''controller-uid'', ''job-name''])"

definition examplePkg :: "(string list, string) pkg" where
  "examplePkg =
     \<lparr>idParts = parseIdentifier (CHR ''/''),
      buildId = buildIdentifier (CHR ''/''),
      patchMetadata = (\<lambda>keyPrefix pathPrefix d. [''replace /metadata/labels;'']),
      patchJobSpec = (\<lambda>pathPrefix prefix d. Inr [''replace /spec/parallelism;'']),
      MarshalJSON = (\<lambda>ops. Inr (concat ops)),
      flattenMetadata = (\<lambda>meta. Name meta # Namespace meta # present (Labels meta)),
      flattenJobSpec = (\<lambda>spec.
        Inr (case Selector spec of None \<Rightarrow> [] | Some sel \<Rightarrow> present (MatchLabels sel))),
      Set' = (\<lambda>d key v. (None, d\<lparr>state := (state d)(key \<mapsto> v)\<rparr>))\<rparr>"

section \<open>The uniqueness validator\<close>

lemma enumerate_nth: "enumerate 0 xs = map (\<lambda>i. (i, xs ! i)) [0..<length xs]"
  unfolding enumerate_eq_zip by (rule nth_equalityI) auto

lemma enumerate_map_VString:
  "enumerate 0 (map VString xs) = map (\<lambda>(n, s). (n, VString s)) (enumerate 0 xs)"
  by (simp add: enumerate_map_upt enumerate_eq_zip zip_map2)

text \<open>On a list of strings neither loop panics; each appends its errors in order.\<close>

lemma unique_inner_strings:
  "unique_inner k n1 (VString s1) (map (\<lambda>(n, s). (n, VString s)) ps) errs =
     Returned (errs @ concat (map (\<lambda>(n2, s2).
       if s1 = s2 \<and> n1 \<noteq> n2 then [duplicate_error k s1] else []) ps))"
  by (induction ps arbitrary: errs) auto

lemma unique_outer_strings:
  "unique_outer k (map (\<lambda>(n, s). (n, VString s)) l) (map (\<lambda>(n, s). (n, VString s)) ps) errs =
     Returned (errs @ concat (map (\<lambda>(n1, s1).
        concat (map (\<lambda>(n2, s2).
          if s1 = s2 \<and> n1 \<noteq> n2 then [duplicate_error k s1] else []) l)) ps))"
  by (induction ps arbitrary: errs) (auto simp: unique_inner_strings)

lemma concat_if_filter:
  "concat (map (\<lambda>j. if P j then [c] else []) js) = map (\<lambda>j. c) (filter P js)"
  by (induction js) auto

lemma concat_product:
  "concat (map (\<lambda>i. concat (map (\<lambda>j. if P i j then [f i] else []) js)) is) =
     map (\<lambda>(i, j). f i) (filter (\<lambda>(i, j). P i j) (List.product is js))"
  by (induction "is") (auto simp: concat_if_filter filter_map comp_def)

lemma ValidateListUniqueStrings_strings:
  "ValidateListUniqueStrings (VList (map VString xs)) k =
     Returned ([], map (\<lambda>(i, j). duplicate_error k (xs ! i)) (duplicate_pairs xs))"
proof -
  have "unique_outer k (enumerate 0 (map VString xs)) (enumerate 0 (map VString xs)) [] =
      Returned (concat (map (\<lambda>i. concat (map (\<lambda>j.
        if xs ! i = xs ! j \<and> i \<noteq> j then [duplicate_error k (xs ! i)] else []) [0..<length xs]))
        [0..<length xs]))"
    unfolding enumerate_map_VString unique_outer_strings
    by (simp add: enumerate_nth comp_def)
  then show ?thesis
    by (simp add: ValidateListUniqueStrings_def concat_product duplicate_pairs_def)
qed

lemma set_duplicate_pairs:
  "set (duplicate_pairs xs) =
     {(i, j). i < length xs \<and> j < length xs \<and> i \<noteq> j \<and> xs ! i = xs ! j}"
  by (auto simp: duplicate_pairs_def)

lemma distinct_duplicate_pairs: "distinct (duplicate_pairs xs)"
  by (simp add: duplicate_pairs_def distinct_product)

lemma duplicate_pairs_Nil: "(duplicate_pairs xs = []) = distinct xs"
proof -
  have "(duplicate_pairs xs = []) = (set (duplicate_pairs xs) = {})" by simp
  also have "\<dots> = distinct xs"
    unfolding set_duplicate_pairs distinct_conv_nth by auto
  finally show ?thesis .
qed

text \<open>
  C9. On every list of strings the uniqueness validator returns without a panic. Its
  error list is empty exactly when the strings are pairwise distinct; its errors are the
  duplicate errors \<^verbatim>\<open>"k": duplicate entry - s\<close> of the strings \<open>s\<close> that stand at two different
  positions, so a list with two equal elements yields an error that mentions the
  duplicated value; and there is one error for each ordered pair of different positions
  holding equal strings.
\<close>

theorem ValidateListUniqueStrings_duplicates:
  "\<exists>es. ValidateListUniqueStrings (VList (map VString xs)) k = Returned ([], es)
     \<and> (es = []) = distinct xs
     \<and> set es = {ErrorString (quote k @ '': duplicate entry - '' @ s) | s.
           \<exists>i j. i < length xs \<and> j < length xs \<and> i \<noteq> j \<and> xs ! i = s \<and> xs ! j = s}
     \<and> length es = card {(i, j). i < length xs \<and> j < length xs \<and> i \<noteq> j \<and> xs ! i = xs ! j}"
proof -
  let ?es = "map (\<lambda>(i, j). duplicate_error k (xs ! i)) (duplicate_pairs xs)"
  have 1: "ValidateListUniqueStrings (VList (map VString xs)) k = Returned ([], ?es)"
    by (rule ValidateListUniqueStrings_strings)
  have 2: "(?es = []) = distinct xs"
    by (simp add: duplicate_pairs_Nil)
  have 3: "set ?es = {ErrorString (quote k @ '': duplicate entry - '' @ s) | s.
           \<exists>i j. i < length xs \<and> j < length xs \<and> i \<noteq> j \<and> xs ! i = s \<and> xs ! j = s}"
    unfolding set_map set_duplicate_pairs duplicate_error_def by (auto simp: image_iff)
  have 4: "length ?es = card {(i, j). i < length xs \<and> j < length xs \<and> i \<noteq> j \<and> xs ! i = xs ! j}"
    using distinct_card [OF distinct_duplicate_pairs, of xs]
    by (simp add: set_duplicate_pairs)
  from 1 2 3 4 show ?thesis by blast
qed

text \<open>
  The two lists of the specification: \<^verbatim>\<open>["a","b","a"]\<close> yields a duplicate error that mentions
  \<^verbatim>\<open>a\<close>, and \<^verbatim>\<open>["a","b","c"]\<close> yields no error.
\<close>

theorem ValidateListUniqueStrings_duplicates_witness:
  "(\<exists>es. ValidateListUniqueStrings (VList [VString ''a'', VString ''b'', VString ''a'']) ''k''
          = Returned ([], es)
      \<and> ErrorString (quote ''k'' @ '': duplicate entry - a'') \<in> set es)
   \<and> ValidateListUniqueStrings (VList [VString ''a'', VString ''b'', VString ''c'']) ''k''
       = Returned ([], [])"
proof -
  from ValidateListUniqueStrings_duplicates [of "[''a'', ''b'', ''a'']" "''k''"]
  obtain es where
    1: "ValidateListUniqueStrings (VList [VString ''a'', VString ''b'', VString ''a'']) ''k''
          = Returned ([], es)"
    and 2: "set es = {ErrorString (quote ''k'' @ '': duplicate entry - '' @ s) | s.
           \<exists>i j. i < length [''a'', ''b'', ''a''] \<and> j < length [''a'', ''b'', ''a''] \<and> i \<noteq> j
              \<and> [''a'', ''b'', ''a''] ! i = s \<and> [''a'', ''b'', ''a''] ! j = s}"
    by auto
  have "\<exists>i j. i < length [''a'', ''b'', ''a''] \<and> j < length [''a'', ''b'', ''a''] \<and> i \<noteq> j
              \<and> [''a'', ''b'', ''a''] ! i = ''a'' \<and> [''a'', ''b'', ''a''] ! j = ''a''"
    by (rule exI [of _ 0], rule exI [of _ 2]) simp
  with 2 have "ErrorString (quote ''k'' @ '': duplicate entry - a'') \<in> set es"
    by auto
  with 1 have a: "\<exists>es.
      ValidateListUniqueStrings (VList [VString ''a'', VString ''b'', VString ''a'']) ''k''
        = Returned ([], es)
      \<and> ErrorString (quote ''k'' @ '': duplicate entry - a'') \<in> set es"
    by blast
  from ValidateListUniqueStrings_duplicates [of "[''a'', ''b'', ''c'']" "''k''"]
  have b: "ValidateListUniqueStrings (VList [VString ''a'', VString ''b'', VString ''c'']) ''k''
      = Returned ([], [])"
    by auto
  from a b show ?thesis by blast
qed

section \<open>The CIDR validator on the three literals\<close>

lemma four_fields: "(4::nat) = Suc (Suc (Suc (Suc 0)))"
  by simp

lemma ParseCIDR_10_0_0_0_16:
  "ParseCIDR ''10.0.0.0/16'' = Inr \<lparr>IP = [10, 0, 0, 0], Mask = [255, 255, 0, 0]\<rparr>"
  unfolding ParseCIDR_def parseIPv4_def four_fields
  by (simp add: dtoi_def is_digit_def big_def ip_Mask_def)

lemma ParseCIDR_10_0_0_1_16:
  "ParseCIDR ''10.0.0.1/16'' = Inr \<lparr>IP = [10, 0, 0, 0], Mask = [255, 255, 0, 0]\<rparr>"
  unfolding ParseCIDR_def parseIPv4_def four_fields
  by (simp add: dtoi_def is_digit_def big_def ip_Mask_def)

lemma ParseCIDR_10_0_0_0_4:
  "ParseCIDR ''10.0.0.0/4'' = Inr \<lparr>IP = [0, 0, 0, 0], Mask = [240, 0, 0, 0]\<rparr>"
  unfolding ParseCIDR_def parseIPv4_def four_fields
  by (simp add: dtoi_def is_digit_def big_def ip_Mask_def)

lemma String_10_0_0_0_16:
  "String \<lparr>IP = [10, 0, 0, 0], Mask = [255, 255, 0, 0]\<rparr> = ''10.0.0.0/16''"
  by (simp add: String_def ones_of_byte_def uitoa.simps)

lemma String_0_0_0_0_4:
  "String \<lparr>IP = [0, 0, 0, 0], Mask = [240, 0, 0, 0]\<rparr> = ''0.0.0.0/4''"
  by (simp add: String_def ones_of_byte_def uitoa.simps)

lemma Size_16: "Size [255, 255, 0, 0] = (16, 32)"
  by (simp add: Size_def ones_of_byte_def)

lemma Size_4: "Size [240, 0, 0, 0] = (4, 32)"
  by (simp add: Size_def ones_of_byte_def)

lemma itoa_8_24_4: "itoa 8 = ''8''" "itoa 24 = ''24''" "itoa 4 = ''4''"
  by (simp_all add: itoa_def uitoa.simps)

text \<open>
  C8. \<open>CIDRNetwork 8 24\<close> returns no error on \<^verbatim>\<open>10.0.0.0/16\<close>. On \<^verbatim>\<open>10.0.0.1/16\<close> it
  returns one error, whose message names the canonical form \<^verbatim>\<open>10.0.0.0/16\<close>. On
  \<^verbatim>\<open>10.0.0.0/4\<close> it returns two errors: the literal is not canonical either (the network
  is \<^verbatim>\<open>0.0.0.0/4\<close>), and its 4 significant bits lie outside 8 to 24.
\<close>

theorem CIDRNetwork_examples:
  "CIDRNetwork 8 24 (VString ''10.0.0.0/16'') k = Returned ([], [])
   \<and> CIDRNetwork 8 24 (VString ''10.0.0.1/16'') k =
       Returned ([], [ErrorString (''expected '' @ k
         @ '' to contain a valid network CIDR, expected 10.0.0.0/16, got 10.0.0.1/16'')])
   \<and> CIDRNetwork 8 24 (VString ''10.0.0.0/4'') k =
       Returned ([], [ErrorString (''expected '' @ k
         @ '' to contain a valid network CIDR, expected 0.0.0.0/4, got 10.0.0.0/4''),
        ErrorString (''expected '' @ quote k
         @ '' to contain a network CIDR with between 8 and 24 significant bits, got: 4'')])"
proof -
  have a: "CIDRNetwork 8 24 (VString ''10.0.0.0/16'') k = Returned ([], [])"
    by (simp add: CIDRNetwork_def ParseCIDR_10_0_0_0_16 String_10_0_0_0_16 Size_16)
  have b: "CIDRNetwork 8 24 (VString ''10.0.0.1/16'') k =
       Returned ([], [ErrorString (''expected '' @ k
         @ '' to contain a valid network CIDR, expected 10.0.0.0/16, got 10.0.0.1/16'')])"
    by (simp add: CIDRNetwork_def ParseCIDR_10_0_0_1_16 String_10_0_0_0_16 Size_16)
  have c: "CIDRNetwork 8 24 (VString ''10.0.0.0/4'') k =
       Returned ([], [ErrorString (''expected '' @ k
         @ '' to contain a valid network CIDR, expected 0.0.0.0/4, got 10.0.0.0/4''),
        ErrorString (''expected '' @ quote k
         @ '' to contain a network CIDR with between 8 and 24 significant bits, got: 4'')])"
    by (simp add: CIDRNetwork_def ParseCIDR_10_0_0_0_4 String_0_0_0_0_4 Size_4 itoa_8_24_4)
  from a b c show ?thesis by blast
qed

text \<open>The same at the key \<^verbatim>\<open>cidr\<close>.\<close>

theorem CIDRNetwork_examples_witness:
  "CIDRNetwork 8 24 (VString ''10.0.0.0/16'') ''cidr'' = Returned ([], [])
   \<and> CIDRNetwork 8 24 (VString ''10.0.0.1/16'') ''cidr'' =
       Returned ([], [ErrorString
         ''expected cidr to contain a valid network CIDR, expected 10.0.0.0/16, got 10.0.0.1/16''])
   \<and> (\<exists>e. CIDRNetwork 8 24 (VString ''10.0.0.0/4'') ''cidr'' =
       Returned ([], [e, ErrorString (''expected '' @ quote ''cidr''
         @ '' to contain a network CIDR with between 8 and 24 significant bits, got: 4'')]))"
  using CIDRNetwork_examples [of "''cidr''"] by simp

section \<open>Inputs of the wrong type\<close>

text \<open>
  The six validators that test their type assertion return exactly one error, the
  "expected type" error, on every value of another type.
\<close>

lemma typed_validators_wrong_type:
  "(\<forall>n. i \<noteq> VInt n) \<Longrightarrow>
     IntBetween minv maxv i k = Returned ([], [ErrorString (''expected type of '' @ k @ '' to be int'')])
     \<and> IntAtLeast minv i k = Returned ([], [ErrorString (''expected type of '' @ k @ '' to be int'')])
     \<and> IntAtMost maxv i k = Returned ([], [ErrorString (''expected type of '' @ k @ '' to be int'')])"
  by (cases i) (simp_all add: IntBetween_def IntAtLeast_def IntAtMost_def)

lemma string_validators_wrong_type:
  "(\<forall>s. i \<noteq> VString s) \<Longrightarrow>
     StringInSlice ToLower valid ignoreCase i k =
       Returned ([], [ErrorString (''expected type of '' @ k @ '' to be string'')])
     \<and> StringLenBetween minv maxv i k =
       Returned ([], [ErrorString (''expected type of '' @ k @ '' to be string'')])
     \<and> CIDRNetwork minv maxv i k =
       Returned ([], [ErrorString (''expected type of '' @ k @ '' to be string'')])"
  by (cases i) (simp_all add: StringInSlice_def StringLenBetween_def CIDRNetwork_def)

lemma ValidateRegexp_wrong_type: "(\<forall>s. v \<noteq> VString s) \<Longrightarrow> ValidateRegexp Compile v k = Panic"
  by (cases v) (simp_all add: ValidateRegexp_def)

lemma ValidateListUniqueStrings_not_list:
  "(\<forall>l. v \<noteq> VList l) \<Longrightarrow> ValidateListUniqueStrings v k = Panic"
  by (cases v) (simp_all add: ValidateListUniqueStrings_def)

text \<open>
  C2. \<open>ValidateRegexp\<close> and \<open>ValidateListUniqueStrings\<close> do not test their type
  assertions: on the integer 42 both panic, and so does \<open>ValidateListUniqueStrings\<close> on a
  list whose elements are not strings. No error is returned.
\<close>

theorem unchecked_assertions_panic:
  "ValidateRegexp Compile (VInt 42) k = Panic
   \<and> ValidateListUniqueStrings (VInt 42) k = Panic
   \<and> ValidateListUniqueStrings (VList [VInt 1, VInt 2]) k = Panic"
  by (simp add: ValidateRegexp_def ValidateListUniqueStrings_def enumerate_eq_zip upt_rec)


section \<open>The identifier round trip\<close>

lemma Split_no_sep: "sep \<notin> set s \<Longrightarrow> Split sep s = [s]"
  by (induction s) auto

lemma Split_append: "sep \<notin> set a \<Longrightarrow> Split sep (a @ sep # b) = a # Split sep b"
  by (induction a) auto

text \<open>
  C7. A pair is valid when neither the namespace nor the name contains the separator.
  For every valid pair, the empty namespace included, parsing the identifier built from
  the pair returns the pair.
\<close>

theorem identifier_roundtrip:
  "sep \<notin> set (Namespace meta) \<Longrightarrow> sep \<notin> set (Name meta) \<Longrightarrow>
     parseIdentifier sep (buildIdentifier sep meta) = Inr (Namespace meta, Name meta)"
  by (simp add: parseIdentifier_def buildIdentifier_def Split_append Split_no_sep)

text \<open>With the separator \<^verbatim>\<open>/\<close>: the name \<^verbatim>\<open>pi\<close> in the empty namespace and in \<^verbatim>\<open>default\<close>.\<close>

theorem identifier_roundtrip_witness:
  "CHR ''/'' \<notin> set [] \<and> CHR ''/'' \<notin> set ''pi''
   \<and> parseIdentifier (CHR ''/'')
        (buildIdentifier (CHR ''/'')
           \<lparr>Name = ''pi'', Namespace = [], Labels = None, Annotations = None\<rparr>) = Inr ([], ''pi'')
   \<and> parseIdentifier (CHR ''/'')
        (buildIdentifier (CHR ''/'')
           \<lparr>Name = ''pi'', Namespace = ''default'', Labels = None, Annotations = None\<rparr>)
       = Inr (''default'', ''pi'')"
  using identifier_roundtrip [of "CHR ''/''"
      "\<lparr>Name = ''pi'', Namespace = [], Labels = None, Annotations = None\<rparr>"]
    identifier_roundtrip [of "CHR ''/''"
      "\<lparr>Name = ''pi'', Namespace = ''default'', Labels = None, Annotations = None\<rparr>"]
  by simp

text \<open>Conversely, an identifier that parses is the one built from the result.\<close>

lemma Split_not_Nil [simp]: "Split sep s \<noteq> []"
  by (induction s) (auto split: list.splits)

lemma Split_single: "Split sep s = [b] \<Longrightarrow> s = b \<and> sep \<notin> set b"
  by (induction s arbitrary: b) (auto split: if_splits list.splits)

lemma Split_pair:
  "Split sep s = [a, b] \<Longrightarrow> s = a @ sep # b \<and> sep \<notin> set a \<and> sep \<notin> set b"
proof (induction s arbitrary: a)
  case Nil
  then show ?case by simp
next
  case (Cons c cs)
  show ?case
  proof (cases "c = sep")
    case True
    with Cons.prems have "a = []" "Split sep cs = [b]" by auto
    with True Split_single [of sep cs b] show ?thesis by simp
  next
    case False
    with Cons.prems obtain p where "a = c # p" "Split sep cs = [p, b]"
      by (auto split: list.splits)
    with False Cons.IH [of p] show ?thesis by simp
  qed
qed

lemma parseIdentifier_inverse:
  "parseIdentifier sep s = Inr (ns, name) \<Longrightarrow> s = ns @ sep # name"
  by (auto simp: parseIdentifier_def Split_pair split: list.splits)

section \<open>The polling loop of Delete\<close>

lemma started_mono: "i \<le> n \<Longrightarrow> started b i \<le> started b n"
  by (induction n) (auto simp: le_Suc_eq)

lemma Retry_loop_skip:
  "(\<forall>i. k \<le> i \<and> i < n \<longrightarrow> (\<exists>rerr. f i = Some rerr \<and> Retryable rerr)) \<Longrightarrow> k \<le> n \<Longrightarrow>
     started b n < T \<Longrightarrow>
     Retry_loop T b f k (started b k) = Retry_loop T b f n (started b n)"
proof (induction n)
  case 0
  then show ?case by simp
next
  case (Suc n)
  show ?case
  proof (cases "k = Suc n")
    case True
    then show ?thesis by simp
  next
    case False
    with Suc.prems have kn: "k \<le> n" by simp
    from Suc.prems have lt: "started b n < T" by simp
    from Suc.prems obtain rerr where r: "f n = Some rerr" "Retryable rerr"
      using kn by auto
    have "Retry_loop T b f k (started b k) = Retry_loop T b f n (started b n)"
      using Suc.IH Suc.prems kn lt by simp
    also have "\<dots> = Retry_loop T b f (Suc n) (started b (Suc n))"
      using lt r by (subst Retry_loop.simps) simp
    finally show ?thesis .
  qed
qed


lemma deletePoll_object: "Get conn i ns name = Inr job \<Longrightarrow>
  \<exists>rerr. deletePoll conn ns name i = Some rerr \<and> Retryable rerr"
  by (simp add: deletePoll_def RetryableError_def)

lemma Retry_404_at:
  assumes "\<forall>i<k. \<exists>job. Get conn i ns name = Inr job" "started backoff k < Minute"
    "Get conn k ns name = Inl err" "status404 err"
  shows "Retry (1 * Minute) backoff (deletePoll conn ns name) = (None, Suc k)"
proof -
  from assms(1)
  have "\<forall>i. 0 \<le> i \<and> i < k \<longrightarrow> (\<exists>rerr. deletePoll conn ns name i = Some rerr \<and> Retryable rerr)"
    using deletePoll_object by blast
  from Retry_loop_skip [OF this, of backoff Minute] assms(2)
  have "Retry Minute backoff (deletePoll conn ns name)
          = Retry_loop Minute backoff (deletePoll conn ns name) k (started backoff k)"
    by (simp add: Retry_def)
  also have "\<dots> = (None, Suc k)"
    using assms by (subst Retry_loop.simps) (simp add: deletePoll_def)
  finally show ?thesis by simp
qed



section \<open>Exists\<close>

lemma idParts_example: "parseIdentifier (CHR ''/'') ''default/pi'' = Inr (''default'', ''pi'')"
  by (simp add: parseIdentifier_def)

lemma example_parses: "idParts examplePkg (Id' exampleData) = Inr (''default'', ''pi'')"
  by (simp add: examplePkg_def exampleData_def idParts_example)

text \<open>
  C3. Whenever the identifier parses, so that the remote get is called: a status error
  with code 404 from the get makes Exists return false and no error, and every other error
  from the get makes it return true and that error.
\<close>

theorem exists_maps_errors:
  "idParts pkg (Id' d) = Inr (ns, name) \<Longrightarrow>
     (Get conn 0 ns name = Inl (StatusError 404 msg) \<longrightarrow>
        resourceKubernetesJobExists pkg conn d = (False, None))
     \<and> (Get conn 0 ns name = Inl err \<and> \<not> status404 err \<longrightarrow>
        resourceKubernetesJobExists pkg conn d = (True, Some err))"
  by (simp add: resourceKubernetesJobExists_def)

text \<open>A 404, a status 500 and an error that is no status error.\<close>

theorem exists_maps_errors_witness:
  "resourceKubernetesJobExists examplePkg
      (exampleClient (\<lambda>k. Inl (StatusError 404 ''not found''))) exampleData = (False, None)
   \<and> resourceKubernetesJobExists examplePkg
      (exampleClient (\<lambda>k. Inl (StatusError 500 ''internal error''))) exampleData
       = (True, Some (StatusError 500 ''internal error''))
   \<and> resourceKubernetesJobExists examplePkg
      (exampleClient (\<lambda>k. Inl (ErrorString ''connection refused''))) exampleData
       = (True, Some (ErrorString ''connection refused''))"
proof -
  note p = example_parses
  show ?thesis
    using exists_maps_errors [OF p, of "exampleClient (\<lambda>k. Inl (StatusError 404 ''not found''))"
        "''not found''" "StatusError 404 ''not found''"]
      exists_maps_errors [OF p, of "exampleClient (\<lambda>k. Inl (StatusError 500 ''internal error''))"
        "''x''" "StatusError 500 ''internal error''"]
      exists_maps_errors [OF p, of "exampleClient (\<lambda>k. Inl (ErrorString ''connection refused''))"
        "''x''" "ErrorString ''connection refused''"]
    by (simp add: exampleClient_def)
qed

section \<open>Delete and the identifier\<close>

text \<open>The four ways in which Delete ends.\<close>

lemma Delete_parse_fails:
  "idParts pkg (Id' d) = Inl e \<Longrightarrow>
     resourceKubernetesJobDelete pkg backoff conn d = (Some e, d, [])
     \<and> \<not> deletionConfirmed pkg backoff conn d"
  by (simp add: resourceKubernetesJobDelete_def deletionConfirmed_def)

lemma Delete_call_fails:
  "idParts pkg (Id' d) = Inr (ns, name) \<Longrightarrow> Delete conn ns name = Some e \<Longrightarrow>
     resourceKubernetesJobDelete pkg backoff conn d = (Some e, d, [DeleteCall ns name])
     \<and> \<not> deletionConfirmed pkg backoff conn d"
  by (simp add: resourceKubernetesJobDelete_def deletionConfirmed_def)

lemma Delete_loop_fails:
  "idParts pkg (Id' d) = Inr (ns, name) \<Longrightarrow> Delete conn ns name = None \<Longrightarrow>
     Retry (1 * Minute) backoff (deletePoll conn ns name) = (Some e, polls) \<Longrightarrow>
     resourceKubernetesJobDelete pkg backoff conn d
       = (Some e, d, DeleteCall ns name # replicate polls (GetCall ns name))
     \<and> \<not> deletionConfirmed pkg backoff conn d"
  by (simp add: resourceKubernetesJobDelete_def deletionConfirmed_def)

lemma Delete_loop_confirms:
  "idParts pkg (Id' d) = Inr (ns, name) \<Longrightarrow> Delete conn ns name = None \<Longrightarrow>
     Retry (1 * Minute) backoff (deletePoll conn ns name) = (None, polls) \<Longrightarrow>
     resourceKubernetesJobDelete pkg backoff conn d
       = (None, d\<lparr>Id' := []\<rparr>, DeleteCall ns name # replicate polls (GetCall ns name))
     \<and> deletionConfirmed pkg backoff conn d"
  by (simp add: resourceKubernetesJobDelete_def deletionConfirmed_def)

text \<open>
  C5. Delete returns no error exactly when the deletion is confirmed, and then the
  identifier is the empty string and nothing else of the resource data has changed; in
  every other case the resource data is unchanged: in particular when the delete call
  fails, and when the polling loop ends with an error, be it a fatal error of a get or the
  timeout.
\<close>

theorem delete_clears_id_iff_confirmed:
  assumes r: "resourceKubernetesJobDelete pkg backoff conn d = (err, d', calls)"
  shows "(err = None) = deletionConfirmed pkg backoff conn d
    \<and> d' = (if deletionConfirmed pkg backoff conn d then d\<lparr>Id' := []\<rparr> else d)
    \<and> (\<forall>ns name e. idParts pkg (Id' d) = Inr (ns, name) \<and> Delete conn ns name = Some e
          \<longrightarrow> err = Some e \<and> d' = d)
    \<and> (\<forall>ns name e polls. idParts pkg (Id' d) = Inr (ns, name) \<and> Delete conn ns name = None
          \<and> Retry (1 * Minute) backoff (deletePoll conn ns name) = (Some e, polls)
          \<longrightarrow> err = Some e \<and> d' = d)"
proof (cases "idParts pkg (Id' d)")
  case (Inl e)
  from Delete_parse_fails [OF Inl, of backoff conn] r Inl show ?thesis by simp
next
  case (Inr p)
  obtain ns name where p: "idParts pkg (Id' d) = Inr (ns, name)"
    using Inr by (cases p) simp
  show ?thesis
  proof (cases "Delete conn ns name")
    case (Some e)
    from Delete_call_fails [OF p Some, of backoff] r p Some show ?thesis by simp
  next
    case None
    obtain re polls where l: "Retry (1 * Minute) backoff (deletePoll conn ns name) = (re, polls)"
      by (cases "Retry (1 * Minute) backoff (deletePoll conn ns name)") simp
    show ?thesis
    proof (cases re)
      case None': None
      from Delete_loop_confirms [OF p None l [unfolded None']] r p None l None'
      show ?thesis by simp
    next
      case (Some e)
      from Delete_loop_fails [OF p None l [unfolded Some]] r p None l Some
      show ?thesis by simp
    qed
  qed
qed

text \<open>A job that is gone at the third poll: the deletion is confirmed, the identifier
  cleared.\<close>

lemma Retry_example_gone:
  "Retry (1 * Minute) (\<lambda>k. 499)
      (deletePoll (exampleClient (\<lambda>k. if k < 2 then Inr exampleJob
                                         else Inl (StatusError 404 ''not found'')))
         ''default'' ''pi'') = (None, Suc (Suc (Suc 0)))"
proof -
  have two: "\<And>i. i < Suc (Suc 0) \<Longrightarrow> i < 2" by simp
  show ?thesis
    by (rule Retry_404_at [of "Suc (Suc 0)" _ _ _ _ "StatusError 404 ''not found''"])
      (simp_all add: exampleClient_def Minute_def two)
qed

theorem delete_clears_id_iff_confirmed_witness:
  "resourceKubernetesJobDelete examplePkg (\<lambda>k. 499)
      (exampleClient (\<lambda>k. if k < 2 then Inr exampleJob else Inl (StatusError 404 ''not found'')))
      exampleData
     = (None, exampleData\<lparr>Id' := []\<rparr>,
        [DeleteCall ''default'' ''pi'', GetCall ''default'' ''pi'', GetCall ''default'' ''pi'',
         GetCall ''default'' ''pi''])
   \<and> deletionConfirmed examplePkg (\<lambda>k. 499)
      (exampleClient (\<lambda>k. if k < 2 then Inr exampleJob else Inl (StatusError 404 ''not found'')))
      exampleData"
proof -
  let ?conn = "exampleClient (\<lambda>k. if k < 2 then Inr exampleJob
                                  else Inl (StatusError 404 ''not found''))"
  note p = example_parses
  have d: "Delete ?conn ''default'' ''pi'' = None"
    by (simp add: exampleClient_def)
  have r: "resourceKubernetesJobDelete examplePkg (\<lambda>k. 499) ?conn exampleData
     = (None, exampleData\<lparr>Id' := []\<rparr>,
        [DeleteCall ''default'' ''pi'', GetCall ''default'' ''pi'', GetCall ''default'' ''pi'',
         GetCall ''default'' ''pi''])"
    using Delete_loop_confirms [OF p d Retry_example_gone]
    by simp
  from delete_clears_id_iff_confirmed [OF r] r show ?thesis by simp
qed

section \<open>Read and the labels of the server\<close>

lemma delete_label_without: "delete_label labels k = without labels {k}"
proof (cases labels)
  case None
  then show ?thesis by (simp add: delete_label_def without_def)
next
  case (Some m)
  have "m |` (- {k}) = m(k := None)"
    by (rule ext) (simp add: restrict_map_def)
  moreover have "m k = None \<Longrightarrow> m(k := None) = m"
    by (rule ext) simp
  ultimately show ?thesis using Some
    by (cases "m k") (simp_all add: delete_label_def without_def)
qed

lemma without_without: "without (without labels a) b = without labels (a \<union> b)"
  by (cases labels) (auto simp: without_def restrict_map_def fun_eq_iff)

lemma removeServerLabels_eq:
  "removeServerLabels d job =
     (if GetOk d ''spec.0.manual_selector'' then Returned job
      else (case Selector (Spec job) of
              None \<Rightarrow> Panic
            | Some sel \<Rightarrow>
                Returned (job\<lparr>ObjectMeta := (ObjectMeta job)\<lparr>Labels :=
                             without (Labels (ObjectMeta job)) {''controller-uid'', ''job-name''}\<rparr>,
                           Spec := (Spec job)\<lparr>Selector :=
                             Some (sel\<lparr>MatchLabels := without (MatchLabels sel) {''controller-uid''}\<rparr>)\<rparr>\<rparr>)))"
  by (simp add: removeServerLabels_def delete_label_without without_without Let_def
      insert_commute split: option.splits)

text \<open>
  C6. Let the identifier parse and the remote get return a job. When \<^verbatim>\<open>GetOk\<close> does not
  report \<^verbatim>\<open>spec.0.manual_selector\<close> as set, what Read projects into the resource data is the
  job whose metadata labels have lost exactly the keys \<^verbatim>\<open>controller-uid\<close> and \<^verbatim>\<open>job-name\<close>
  (and whose selector has lost \<^verbatim>\<open>controller-uid\<close>); a job without a selector is not
  projected at all, Read panics. When \<^verbatim>\<open>GetOk\<close> reports the key as set, the job is projected
  as the server returned it.
\<close>

theorem read_removes_server_labels:
  "idParts pkg (Id' d) = Inr (ns, name) \<Longrightarrow> Get conn 0 ns name = Inr job \<Longrightarrow>
     (\<not> GetOk d ''spec.0.manual_selector'' \<longrightarrow>
        resourceKubernetesJobRead pkg conn d =
          (case Selector (Spec job) of
             None \<Rightarrow> Panic
           | Some sel \<Rightarrow>
               (case setState pkg d
                  (job\<lparr>ObjectMeta := (ObjectMeta job)\<lparr>Labels :=
                          without (Labels (ObjectMeta job)) {''controller-uid'', ''job-name''}\<rparr>,
                       Spec := (Spec job)\<lparr>Selector :=
                          Some (sel\<lparr>MatchLabels := without (MatchLabels sel) {''controller-uid''}\<rparr>)\<rparr>\<rparr>) of
                  (err, d') \<Rightarrow> Returned (err, d', [GetCall ns name]))))
     \<and> (GetOk d ''spec.0.manual_selector'' \<longrightarrow>
        resourceKubernetesJobRead pkg conn d =
          (case setState pkg d job of (err, d') \<Rightarrow> Returned (err, d', [GetCall ns name])))"
  by (simp add: resourceKubernetesJobRead_def removeServerLabels_eq split: option.splits)

text \<open>
  The example job, read without and with manual selector: of the labels \<^verbatim>\<open>app\<close>,
  \<^verbatim>\<open>controller-uid\<close> and \<^verbatim>\<open>job-name\<close> only \<^verbatim>\<open>app\<close> reaches the state in the first case, all
  three in the second.
\<close>

theorem read_removes_server_labels_witness:
  "resourceKubernetesJobRead examplePkg (exampleClient (\<lambda>k. Inr exampleJob)) exampleData
     = Returned (None,
         exampleData\<lparr>state := [''metadata'' \<mapsto> [''pi'', ''default'', ''app''], ''spec'' \<mapsto> []]\<rparr>,
         [GetCall ''default'' ''pi''])
   \<and> resourceKubernetesJobRead examplePkg (exampleClient (\<lambda>k. Inr exampleJob))
        (exampleData\<lparr>GetOk := \<lambda>key. True\<rparr>)
     = Returned (None,
         exampleData\<lparr>GetOk := \<lambda>key. True,
           state := [''metadata'' \<mapsto> [''pi'', ''default'', ''app'', ''controller-uid'', ''job-name''],
                     ''spec'' \<mapsto> [''controller-uid'']]\<rparr>,
         [GetCall ''default'' ''pi''])"
proof -
  have g: "Get (exampleClient (\<lambda>k. Inr exampleJob)) 0 ''default'' ''pi'' = Inr exampleJob"
    by (simp add: exampleClient_def)
  have p: "idParts examplePkg (Id' (exampleData\<lparr>GetOk := \<lambda>key. True\<rparr>)) = Inr (''default'', ''pi'')"
    using example_parses by simp
  have a: "resourceKubernetesJobRead examplePkg (exampleClient (\<lambda>k. Inr exampleJob)) exampleData
     = Returned (None,
         exampleData\<lparr>state := [''metadata'' \<mapsto> [''pi'', ''default'', ''app''], ''spec'' \<mapsto> []]\<rparr>,
         [GetCall ''default'' ''pi''])"
    using read_removes_server_labels [OF example_parses g]
    by (simp add: exampleData_def exampleJob_def examplePkg_def setState_def present_def
        without_def restrict_map_def)
  have b: "resourceKubernetesJobRead examplePkg (exampleClient (\<lambda>k. Inr exampleJob))
        (exampleData\<lparr>GetOk := \<lambda>key. True\<rparr>)
     = Returned (None,
         exampleData\<lparr>GetOk := \<lambda>key. True,
           state := [''metadata'' \<mapsto> [''pi'', ''default'', ''app'', ''controller-uid'', ''job-name''],
                     ''spec'' \<mapsto> [''controller-uid'']]\<rparr>,
         [GetCall ''default'' ''pi''])"
    using read_removes_server_labels [OF p g]
    by (simp add: exampleData_def exampleJob_def examplePkg_def setState_def present_def)
  from a b show ?thesis by blast
qed

text \<open>
  C10. Let the identifier parse and the remote get return a job. When \<^verbatim>\<open>GetOk\<close> does not
  report \<^verbatim>\<open>spec.0.manual_selector\<close> as set, Read panics exactly when the selector of the job
  is nil: it returns neither an error nor a state. When the key is reported as set, Read
  does not panic, whatever the selector.
\<close>

theorem read_panics_on_nil_selector:
  "idParts pkg (Id' d) = Inr (ns, name) \<Longrightarrow> Get conn 0 ns name = Inr job \<Longrightarrow>
     (\<not> GetOk d ''spec.0.manual_selector'' \<longrightarrow>
        (resourceKubernetesJobRead pkg conn d = Panic) = (Selector (Spec job) = None))
     \<and> (GetOk d ''spec.0.manual_selector'' \<longrightarrow> resourceKubernetesJobRead pkg conn d \<noteq> Panic)"
  by (simp add: resourceKubernetesJobRead_def removeServerLabels_eq split: option.splits prod.splits)

text \<open>The example job without its selector, and with it.\<close>

theorem read_panics_on_nil_selector_witness:
  "resourceKubernetesJobRead examplePkg
      (exampleClient (\<lambda>k. Inr (exampleJob\<lparr>Spec := (Spec exampleJob)\<lparr>Selector := None\<rparr>\<rparr>)))
      exampleData = Panic
   \<and> resourceKubernetesJobRead examplePkg (exampleClient (\<lambda>k. Inr exampleJob)) exampleData \<noteq> Panic
   \<and> resourceKubernetesJobRead examplePkg
      (exampleClient (\<lambda>k. Inr (exampleJob\<lparr>Spec := (Spec exampleJob)\<lparr>Selector := None\<rparr>\<rparr>)))
      (exampleData\<lparr>GetOk := \<lambda>key. True\<rparr>) \<noteq> Panic"
proof -
  let ?nil = "exampleJob\<lparr>Spec := (Spec exampleJob)\<lparr>Selector := None\<rparr>\<rparr>"
  have g: "Get (exampleClient (\<lambda>k. Inr exampleJob)) 0 ''default'' ''pi'' = Inr exampleJob"
    by (simp add: exampleClient_def)
  have n: "Get (exampleClient (\<lambda>k. Inr ?nil)) 0 ''default'' ''pi'' = Inr ?nil"
    by (simp add: exampleClient_def)
  have p: "idParts examplePkg (Id' (exampleData\<lparr>GetOk := \<lambda>key. True\<rparr>)) = Inr (''default'', ''pi'')"
    using example_parses by simp
  show ?thesis
    using read_panics_on_nil_selector [OF example_parses n]
      read_panics_on_nil_selector [OF example_parses g]
      read_panics_on_nil_selector [OF p n]
    by (simp add: exampleData_def exampleJob_def)
qed

section \<open>Update and the change set\<close>

text \<open>
  C4. Let the identifier parse, and let \<open>metaOps\<close> be the operations of
  \<^verbatim>\<open>patchMetadata\<close>, which are always computed. When \<^verbatim>\<open>spec\<close> has not changed, \<open>metaOps\<close>
  alone is serialized, whatever \<^verbatim>\<open>patchJobSpec\<close> would return; when it has changed, the
  operations of \<^verbatim>\<open>patchJobSpec\<close> are appended (and its error is returned, if it fails). If
  the serialization fails, Update returns the error
  \<^verbatim>\<open>Failed to marshal update operations: ...\<close>, the resource data is unchanged and no
  remote call has been issued. If it succeeds, the one patch call carries the serialized
  operations: when the server refuses the patch, its error is returned and the resource
  data is unchanged; when the server accepts it, the identifier is set from the returned
  object and Update ends as Read does on that resource data, the patch call standing
  before the calls of Read in the log.
\<close>

theorem update_changeset:
  assumes p: "idParts pkg (Id' d) = Inr (ns, name)"
    and m: "metaOps = patchMetadata pkg ''metadata.0.'' ''/metadata/'' d"
  shows "(\<not> HasChange d ''spec'' \<and> MarshalJSON pkg metaOps = Inl e \<longrightarrow>
        resourceKubernetesJobUpdate pkg conn d =
          Returned (Some (ErrorString (''Failed to marshal update operations: '' @ Error e)), d, []))
   \<and> (HasChange d ''spec'' \<and> patchJobSpec pkg ''/spec'' ''spec.0.'' d = Inr specOps
        \<and> MarshalJSON pkg (metaOps @ specOps) = Inl e \<longrightarrow>
        resourceKubernetesJobUpdate pkg conn d =
          Returned (Some (ErrorString (''Failed to marshal update operations: '' @ Error e)), d, []))
   \<and> (HasChange d ''spec'' \<and> patchJobSpec pkg ''/spec'' ''spec.0.'' d = Inl e \<longrightarrow>
        resourceKubernetesJobUpdate pkg conn d = Returned (Some e, d, []))
   \<and> (\<not> HasChange d ''spec'' \<and> MarshalJSON pkg metaOps = Inr data
        \<and> Patch conn ns name JSONPatchType data = Inl e \<longrightarrow>
        resourceKubernetesJobUpdate pkg conn d =
          Returned (Some e, d, [PatchCall ns name JSONPatchType data]))
   \<and> (HasChange d ''spec'' \<and> patchJobSpec pkg ''/spec'' ''spec.0.'' d = Inr specOps
        \<and> MarshalJSON pkg (metaOps @ specOps) = Inr data
        \<and> Patch conn ns name JSONPatchType data = Inl e \<longrightarrow>
        resourceKubernetesJobUpdate pkg conn d =
          Returned (Some e, d, [PatchCall ns name JSONPatchType data]))
   \<and> (\<not> HasChange d ''spec'' \<and> MarshalJSON pkg metaOps = Inr data
        \<and> Patch conn ns name JSONPatchType data = Inr out \<longrightarrow>
        resourceKubernetesJobUpdate pkg conn d =
          (case resourceKubernetesJobRead pkg conn (d\<lparr>Id' := buildId pkg (ObjectMeta out)\<rparr>) of
             Panic \<Rightarrow> Panic
           | Returned (err, d', calls) \<Rightarrow>
               Returned (err, d', PatchCall ns name JSONPatchType data # calls)))
   \<and> (HasChange d ''spec'' \<and> patchJobSpec pkg ''/spec'' ''spec.0.'' d = Inr specOps
        \<and> MarshalJSON pkg (metaOps @ specOps) = Inr data
        \<and> Patch conn ns name JSONPatchType data = Inr out \<longrightarrow>
        resourceKubernetesJobUpdate pkg conn d =
          (case resourceKubernetesJobRead pkg conn (d\<lparr>Id' := buildId pkg (ObjectMeta out)\<rparr>) of
             Panic \<Rightarrow> Panic
           | Returned (err, d', calls) \<Rightarrow>
               Returned (err, d', PatchCall ns name JSONPatchType data # calls)))"
  using p m by (simp add: resourceKubernetesJobUpdate_def)

text \<open>Read on the example job, from any resource data without manual selector.\<close>

lemma Read_example:
  "resourceKubernetesJobRead examplePkg (exampleClient (\<lambda>k. Inr exampleJob))
      (d\<lparr>Id' := buildId examplePkg (ObjectMeta exampleJob), GetOk := \<lambda>key. False\<rparr>)
     = Returned (None,
         d\<lparr>Id' := ''default/pi'', GetOk := \<lambda>key. False,
           state := (state d)(''metadata'' \<mapsto> [''pi'', ''default'', ''app''], ''spec'' \<mapsto> [])\<rparr>,
         [GetCall ''default'' ''pi''])"
  by (simp add: resourceKubernetesJobRead_def removeServerLabels_eq examplePkg_def
      exampleClient_def exampleJob_def buildIdentifier_def idParts_example setState_def
      present_def without_def restrict_map_def)


text \<open>
  A serializer that fails, with and without a changed spec; a \<^verbatim>\<open>patchJobSpec\<close> that fails;
  a patch call that the server refuses, without and with a changed spec; and a patch call
  that the server accepts, without and with a changed spec.
\<close>

theorem update_changeset_witness:
  "resourceKubernetesJobUpdate
      (examplePkg\<lparr>MarshalJSON := \<lambda>ops. Inl (ErrorString ''unsupported value'')\<rparr>)
      (exampleClient (\<lambda>k. Inr exampleJob)) (exampleData\<lparr>HasChange := \<lambda>key. False\<rparr>)
     = Returned (Some (ErrorString ''Failed to marshal update operations: unsupported value''),
         exampleData\<lparr>HasChange := \<lambda>key. False\<rparr>, [])
   \<and> resourceKubernetesJobUpdate
      (examplePkg\<lparr>MarshalJSON := \<lambda>ops. Inl (ErrorString ''unsupported value'')\<rparr>)
      (exampleClient (\<lambda>k. Inr exampleJob)) exampleData
     = Returned (Some (ErrorString ''Failed to marshal update operations: unsupported value''),
         exampleData, [])
   \<and> resourceKubernetesJobUpdate
      (examplePkg\<lparr>patchJobSpec := \<lambda>pathPrefix prefix d. Inl (ErrorString ''bad template'')\<rparr>)
      (exampleClient (\<lambda>k. Inr exampleJob)) exampleData
     = Returned (Some (ErrorString ''bad template''), exampleData, [])
   \<and> resourceKubernetesJobUpdate examplePkg
      ((exampleClient (\<lambda>k. Inr exampleJob))
         \<lparr>Patch := \<lambda>namespace name pt data. Inl (StatusError 409 ''conflict'')\<rparr>)
      (exampleData\<lparr>HasChange := \<lambda>key. False\<rparr>)
     = Returned (Some (StatusError 409 ''conflict''), exampleData\<lparr>HasChange := \<lambda>key. False\<rparr>,
         [PatchCall ''default'' ''pi'' JSONPatchType ''replace /metadata/labels;''])
   \<and> resourceKubernetesJobUpdate examplePkg
      ((exampleClient (\<lambda>k. Inr exampleJob))
         \<lparr>Patch := \<lambda>namespace name pt data. Inl (StatusError 409 ''conflict'')\<rparr>)
      exampleData
     = Returned (Some (StatusError 409 ''conflict''), exampleData,
         [PatchCall ''default'' ''pi'' JSONPatchType
            ''replace /metadata/labels;replace /spec/parallelism;''])
   \<and> resourceKubernetesJobUpdate examplePkg (exampleClient (\<lambda>k. Inr exampleJob))
      (exampleData\<lparr>HasChange := \<lambda>key. False\<rparr>)
     = Returned (None,
         exampleData\<lparr>HasChange := \<lambda>key. False,
           state := [''metadata'' \<mapsto> [''pi'', ''default'', ''app''], ''spec'' \<mapsto> []]\<rparr>,
         [PatchCall ''default'' ''pi'' JSONPatchType ''replace /metadata/labels;'',
          GetCall ''default'' ''pi''])
   \<and> resourceKubernetesJobUpdate examplePkg (exampleClient (\<lambda>k. Inr exampleJob)) exampleData
     = Returned (None,
         exampleData\<lparr>state := [''metadata'' \<mapsto> [''pi'', ''default'', ''app''], ''spec'' \<mapsto> []]\<rparr>,
         [PatchCall ''default'' ''pi'' JSONPatchType
            ''replace /metadata/labels;replace /spec/parallelism;'',
          GetCall ''default'' ''pi''])"
proof -
  let ?fails = "examplePkg\<lparr>MarshalJSON := \<lambda>ops. Inl (ErrorString ''unsupported value'')\<rparr>"
  let ?bad = "examplePkg\<lparr>patchJobSpec := \<lambda>pathPrefix prefix d. Inl (ErrorString ''bad template'')\<rparr>"
  let ?same = "exampleData\<lparr>HasChange := \<lambda>key. False\<rparr>"
  let ?conn = "exampleClient (\<lambda>k. Inr exampleJob)"
  let ?conflict = "?conn\<lparr>Patch := \<lambda>namespace name pt data. Inl (StatusError 409 ''conflict'')\<rparr>"
  let ?metaOps = "[''replace /metadata/labels;'']"
  let ?specOps = "[''replace /spec/parallelism;'']"
  have p1: "idParts ?fails (Id' ?same) = Inr (''default'', ''pi'')"
    and p2: "idParts ?fails (Id' exampleData) = Inr (''default'', ''pi'')"
    and p3: "idParts ?bad (Id' exampleData) = Inr (''default'', ''pi'')"
    and p4: "idParts examplePkg (Id' ?same) = Inr (''default'', ''pi'')"
    using example_parses by simp_all
  have m1: "?metaOps = patchMetadata ?fails ''metadata.0.'' ''/metadata/'' ?same"
    and m2: "?metaOps = patchMetadata ?fails ''metadata.0.'' ''/metadata/'' exampleData"
    and m3: "?metaOps = patchMetadata ?bad ''metadata.0.'' ''/metadata/'' exampleData"
    and m4: "?metaOps = patchMetadata examplePkg ''metadata.0.'' ''/metadata/'' ?same"
    and m5: "?metaOps = patchMetadata examplePkg ''metadata.0.'' ''/metadata/'' exampleData"
    by (simp_all add: examplePkg_def)
  have a: "resourceKubernetesJobUpdate ?fails ?conn ?same
     = Returned (Some (ErrorString ''Failed to marshal update operations: unsupported value''),
         ?same, [])"
    using update_changeset [OF p1 m1, where e = "ErrorString ''unsupported value''" and conn = ?conn]
    by (simp add: exampleData_def)
  have b: "resourceKubernetesJobUpdate ?fails ?conn exampleData
     = Returned (Some (ErrorString ''Failed to marshal update operations: unsupported value''),
         exampleData, [])"
    using update_changeset [OF p2 m2, where e = "ErrorString ''unsupported value''"
        and specOps = ?specOps and conn = ?conn]
    by (simp add: exampleData_def examplePkg_def)
  have c: "resourceKubernetesJobUpdate ?bad ?conn exampleData
     = Returned (Some (ErrorString ''bad template''), exampleData, [])"
    using update_changeset [OF p3 m3, where e = "ErrorString ''bad template''" and conn = ?conn]
    by (simp add: exampleData_def)
  have d: "resourceKubernetesJobUpdate examplePkg ?conflict ?same
     = Returned (Some (StatusError 409 ''conflict''), ?same,
         [PatchCall ''default'' ''pi'' JSONPatchType ''replace /metadata/labels;''])"
    using update_changeset [OF p4 m4, where e = "StatusError 409 ''conflict''"
        and data = "''replace /metadata/labels;''" and conn = ?conflict]
    by (simp add: exampleData_def examplePkg_def)
  have e: "resourceKubernetesJobUpdate examplePkg ?conflict exampleData
     = Returned (Some (StatusError 409 ''conflict''), exampleData,
         [PatchCall ''default'' ''pi'' JSONPatchType
            ''replace /metadata/labels;replace /spec/parallelism;''])"
    using update_changeset [OF example_parses m5, where e = "StatusError 409 ''conflict''"
        and specOps = ?specOps
        and data = "''replace /metadata/labels;replace /spec/parallelism;''" and conn = ?conflict]
    by (simp add: exampleData_def examplePkg_def)
  have r1: "resourceKubernetesJobRead examplePkg ?conn
        (?same\<lparr>Id' := buildId examplePkg (ObjectMeta exampleJob)\<rparr>)
     = Returned (None,
         exampleData\<lparr>HasChange := \<lambda>key. False,
           state := [''metadata'' \<mapsto> [''pi'', ''default'', ''app''], ''spec'' \<mapsto> []]\<rparr>,
         [GetCall ''default'' ''pi''])"
    using Read_example [of ?same] by (simp add: exampleData_def)
  have r2: "resourceKubernetesJobRead examplePkg ?conn
        (exampleData\<lparr>Id' := buildId examplePkg (ObjectMeta exampleJob)\<rparr>)
     = Returned (None,
         exampleData\<lparr>state := [''metadata'' \<mapsto> [''pi'', ''default'', ''app''], ''spec'' \<mapsto> []]\<rparr>,
         [GetCall ''default'' ''pi''])"
    using Read_example [of exampleData] by (simp add: exampleData_def)
  have f: "resourceKubernetesJobUpdate examplePkg ?conn ?same
     = Returned (None,
         exampleData\<lparr>HasChange := \<lambda>key. False,
           state := [''metadata'' \<mapsto> [''pi'', ''default'', ''app''], ''spec'' \<mapsto> []]\<rparr>,
         [PatchCall ''default'' ''pi'' JSONPatchType ''replace /metadata/labels;'',
          GetCall ''default'' ''pi''])"
    using update_changeset [OF p4 m4, where data = "''replace /metadata/labels;''"
        and conn = ?conn and out = exampleJob] r1
    by (simp add: exampleData_def examplePkg_def exampleClient_def)
  have g: "resourceKubernetesJobUpdate examplePkg ?conn exampleData
     = Returned (None,
         exampleData\<lparr>state := [''metadata'' \<mapsto> [''pi'', ''default'', ''app''], ''spec'' \<mapsto> []]\<rparr>,
         [PatchCall ''default'' ''pi'' JSONPatchType
            ''replace /metadata/labels;replace /spec/parallelism;'',
          GetCall ''default'' ''pi''])"
    using update_changeset [OF example_parses m5, where specOps = ?specOps
        and data = "''replace /metadata/labels;replace /spec/parallelism;''"
        and conn = ?conn and out = exampleJob] r2
    by (simp add: exampleData_def examplePkg_def exampleClient_def)
  from a b c d e f g show ?thesis by blast
qed

end
